theory Spec2Isabelle
  imports Main
begin

section \<open>The Snowboy wake word detector: data model\<close>

text \<open>
  A shallow embedding of \<^verbatim>\<open>src/audio_processing/snowboy_wake_word_detector.py\<close>,
  class \<^verbatim>\<open>SnowboyWakeWordDetector\<close>.

  The attributes of the object are the fields of the record \<open>controller\<close>. Everything
  outside the object (the logger, the threads of the process, the PyAudio device and
  stream, the Snowboy detector, the subscribers' callbacks) is the \<open>world\<close>: the calls
  made on it are appended, in program order, to its \<open>trace\<close>. Each method takes the
  controller and the world and returns them updated. A method that can raise returns
  \<open>Inl e\<close> for the exception \<open>e\<close> and \<open>Inr v\<close> for the value \<open>v\<close>, beside the
  state reached at that point (the assignments made before a raise stay made).

  One method is modelled as one uninterrupted run of its statements: the model
  describes each thread's own sequence of actions, not every interleaving of two of them.
\<close>

type_synonym path = string
type_synonym frame = "nat list"

text \<open>Instances of Python's \<^verbatim>\<open>Exception\<close>, the class every handler of the file catches.\<close>

datatype exn = TypeError | IndexError | AttributeError | RuntimeError | OSError
  | OtherException string

text \<open>
  A number given as a sensitivity: an \<^verbatim>\<open>int\<close>, or a \<^verbatim>\<open>float\<close> held as
  the text \<^verbatim>\<open>str()\<close> gives for it (the code does nothing with a sensitivity but
  \<^verbatim>\<open>str()\<close>). The argument \<^verbatim>\<open>sensitivity\<close> is a single number, a sequence of
  numbers, or an object that cannot be iterated (such as \<^verbatim>\<open>None\<close>).
\<close>

datatype pynum = PyInt int | PyFloat string

datatype sens_arg = Scalar pynum | Sequence "pynum list" | NotIterable

text \<open>
  The objects the external libraries hand out. What a method of such an object does when
  it is called (returns, or raises) is a field of the object: \<open>None\<close> in an
  \<open>exn option\<close> is a normal return.
\<close>

record stream_obj =
  stream_id :: nat
  is_active_result :: "exn + bool"
  stop_stream_result :: "exn option"
  close_result :: "exn option"

record audio_obj =
  audio_id :: nat
  terminate_result :: "exn option"

record detector_obj =
  detector_id :: nat

text \<open>A subscriber: called with the model path and the label, it returns or raises.\<close>

record callback =
  cb_id :: nat
  cb_run :: "path \<Rightarrow> string \<Rightarrow> exn option"

record controller =
  model_paths :: "path list"
  sensitivity :: "string list"
  sample_rate :: nat
  buffer_size :: nat
  on_detected_callbacks :: "callback list"
  running :: bool
  paused :: bool
  detection_thread :: "nat option"
  audio :: "audio_obj option"
  stream :: "stream_obj option"
  detector :: "detector_obj option"
  enabled :: bool

text \<open>
  The messages of the logger, one constructor for each call of \<^verbatim>\<open>logger\<close> in the
  class (the source's texts are Chinese; the exception a message formats is kept).
\<close>

datatype level = Info | Warning | Error

datatype logmsg =
    NotEnabled
  | AlreadyRunning
  | Started
  | CloseStreamFailed exn
  | TerminateFailed exn
  | Stopped
  | PausedMsg
  | ResumedMsg
  | CallbackFailed exn
  | SnowboyMissing
  | Detected int
  | LoopFailed exn

datatype event =
    Log level logmsg
  | ThreadStart nat
  | ThreadJoin nat
  | NewDetector "path list" string
  | NewPyAudio
  | AudioOpen nat nat nat
  | StreamRead nat nat
  | RunDetection nat frame
  | DetectorReset nat
  | StreamIsActive nat
  | StreamStop nat
  | StreamClose nat
  | AudioTerminate nat
  | Sleep nat
  | CallbackCalled nat path string

text \<open>
  The world: the calls made so far, the identifiers of the threads that are alive
  (\<^verbatim>\<open>Thread.is_alive()\<close>), and the identifier the next thread gets. A thread that is
  executing is alive.
\<close>

record world =
  trace :: "event list"
  alive :: "nat list"
  next_tid :: nat

definition emit :: "event \<Rightarrow> world \<Rightarrow> world" where
  "emit e w = w\<lparr>trace := trace w @ [e]\<rparr>"

section \<open>Python's built-ins\<close>

text \<open>\<^verbatim>\<open>str(n)\<close> for an \<^verbatim>\<open>int\<close>: its decimal digits, with a minus sign when negative.\<close>

definition digit_char :: "nat \<Rightarrow> char" where
  "digit_char d = ''0123456789'' ! d"

fun str_nat :: "nat \<Rightarrow> string" where
  "str_nat n = (if n < 10 then [digit_char n] else str_nat (n div 10) @ [digit_char (n mod 10)])"

declare str_nat.simps [simp del]

definition str_int :: "int \<Rightarrow> string" where
  "str_int i = (if i < 0 then CHR ''-'' # str_nat (nat (- i)) else str_nat (nat i))"

fun str_num :: "pynum \<Rightarrow> string" where
  "str_num (PyInt i) = str_int i"
| "str_num (PyFloat r) = r"

text \<open>\<^verbatim>\<open>','.join(xs)\<close>.\<close>

fun join_comma :: "string list \<Rightarrow> string" where
  "join_comma [] = []"
| "join_comma [x] = x"
| "join_comma (x # y # ys) = x @ '','' @ join_comma (y # ys)"

text \<open>
  Subscripting a list, \<^verbatim>\<open>xs[i]\<close>. With \<open>len = len(xs)\<close>: the positions
  \<open>0 .. len-1\<close> are read from the front, the positions \<open>-len .. -1\<close> from the
  back, and every other position raises \<^verbatim>\<open>IndexError\<close>.
\<close>

definition py_index :: "'a list \<Rightarrow> int \<Rightarrow> exn + 'a" where
  "py_index xs i =
     (if 0 \<le> i \<and> i < int (length xs) then Inr (xs ! nat i)
      else if i < 0 \<and> - int (length xs) \<le> i then Inr (xs ! nat (int (length xs) + i))
      else Inl IndexError)"

section \<open>Construction\<close>

text \<open>
  \<^verbatim>\<open>__init__\<close> (lines 18-42). \<open>snowboydecoder\<close> says whether the import of the
  module at the top of the file succeeded (the global is the module, or \<^verbatim>\<open>None\<close>).
  \<open>model_paths_arg = None\<close> is the default \<^verbatim>\<open>model_paths=None\<close>. The lock
  \<^verbatim>\<open>stream_lock\<close> is created here and used nowhere in the class: it has no field.
\<close>

definition sensitivity_strings :: "path list \<Rightarrow> sens_arg \<Rightarrow> exn + string list" where
  "sensitivity_strings mp s =
     (case s of
        Scalar v \<Rightarrow> Inr (replicate (length mp) (str_num v))
      | Sequence vs \<Rightarrow> Inr (map str_num vs)
      | NotIterable \<Rightarrow> Inl TypeError)"

definition init :: "bool \<Rightarrow> path list option \<Rightarrow> sens_arg \<Rightarrow> nat \<Rightarrow> nat \<Rightarrow> exn + controller" where
  "init snowboydecoder model_paths_arg sensitivity_arg sample_rate_arg buffer_size_arg =
     (let mp = (case model_paths_arg of None \<Rightarrow> [] | Some ps \<Rightarrow> ps) in
      case sensitivity_strings mp sensitivity_arg of
        Inl e \<Rightarrow> Inl e
      | Inr sens \<Rightarrow>
          Inr \<lparr>model_paths = mp,
               sensitivity = sens,
               sample_rate = sample_rate_arg,
               buffer_size = buffer_size_arg,
               on_detected_callbacks = [],
               running = False,
               paused = False,
               detection_thread = None,
               audio = None,
               stream = None,
               detector = None,
               enabled = (snowboydecoder \<and> mp \<noteq> [])\<rparr>)"

section \<open>The control surface\<close>

text \<open>
  \<^verbatim>\<open>start\<close> (lines 44-56); its argument \<^verbatim>\<open>audio_codec_or_stream\<close> is not read.
  The new thread gets the identifier \<open>next_tid\<close> and is alive from its start; what it
  executes is \<open>detection_loop\<close> below.
\<close>

definition start :: "controller \<Rightarrow> world \<Rightarrow> bool \<times> controller \<times> world" where
  "start c w =
     (if \<not> enabled c then (False, c, emit (Log Warning NotEnabled) w)
      else if running c then (True, c, emit (Log Info AlreadyRunning) w)
      else
        let t = next_tid w;
            c1 = c\<lparr>running := True, paused := False, detection_thread := Some t\<rparr>;
            w1 = emit (ThreadStart t) (w\<lparr>alive := t # alive w, next_tid := Suc t\<rparr>)
        in (True, c1, emit (Log Info Started) w1))"

text \<open>
  \<^verbatim>\<open>Thread.join(timeout)\<close>, called by the thread \<open>cur\<close> on the thread \<open>t\<close>: Python
  raises \<^verbatim>\<open>RuntimeError\<close> when a thread joins itself; otherwise the call waits, at
  most for the timeout, and returns.
\<close>

definition thread_join :: "nat \<Rightarrow> nat \<Rightarrow> world \<Rightarrow> (exn + unit) \<times> world" where
  "thread_join cur t w =
     (if t = cur then (Inl RuntimeError, w) else (Inr (), emit (ThreadJoin t) w))"

text \<open>Lines 60-61 of \<^verbatim>\<open>stop\<close>.\<close>

definition join_worker :: "nat \<Rightarrow> controller \<Rightarrow> world \<Rightarrow> (exn + unit) \<times> world" where
  "join_worker cur c w =
     (case detection_thread c of
        None \<Rightarrow> (Inr (), w)
      | Some t \<Rightarrow> if t \<in> set (alive w) then thread_join cur t w else (Inr (), w))"

text \<open>Lines 64-66: the body of the first \<^verbatim>\<open>try\<close> of \<^verbatim>\<open>stop\<close>.\<close>

definition close_stream_body :: "stream_obj \<Rightarrow> world \<Rightarrow> (exn + unit) \<times> world" where
  "close_stream_body s w =
     (let w1 = emit (StreamIsActive (stream_id s)) w in
      case is_active_result s of
        Inl e \<Rightarrow> (Inl e, w1)
      | Inr active \<Rightarrow>
          (case (if active then (stop_stream_result s, emit (StreamStop (stream_id s)) w1)
                 else (None, w1)) of
             (Some e, w2) \<Rightarrow> (Inl e, w2)
           | (None, w2) \<Rightarrow>
               (case close_result s of
                  Some e \<Rightarrow> (Inl e, emit (StreamClose (stream_id s)) w2)
                | None \<Rightarrow> (Inr (), emit (StreamClose (stream_id s)) w2))))"

text \<open>Lines 62-68: the handler logs the exception and goes on.\<close>

definition release_stream :: "controller \<Rightarrow> world \<Rightarrow> world" where
  "release_stream c w =
     (case stream c of
        None \<Rightarrow> w
      | Some s \<Rightarrow>
          (case close_stream_body s w of
             (Inl e, w1) \<Rightarrow> emit (Log Error (CloseStreamFailed e)) w1
           | (Inr u, w1) \<Rightarrow> w1))"

text \<open>Lines 69-73.\<close>

definition release_audio :: "controller \<Rightarrow> world \<Rightarrow> world" where
  "release_audio c w =
     (case audio c of
        None \<Rightarrow> w
      | Some a \<Rightarrow>
          (let w1 = emit (AudioTerminate (audio_id a)) w in
           case terminate_result a of
             Some e \<Rightarrow> emit (Log Error (TerminateFailed e)) w1
           | None \<Rightarrow> w1))"

text \<open>
  \<^verbatim>\<open>stop\<close> (lines 58-76), executed by the thread \<open>cur\<close>. The exception of the join is
  under no handler: it leaves \<^verbatim>\<open>stop\<close> after line 59 has cleared the run flag and
  before anything is released.
\<close>

definition stop :: "nat \<Rightarrow> controller \<Rightarrow> world \<Rightarrow> (exn + unit) \<times> controller \<times> world" where
  "stop cur c w =
     (let c1 = c\<lparr>running := False\<rparr> in
      case join_worker cur c1 w of
        (Inl e, w1) \<Rightarrow> (Inl e, c1, w1)
      | (Inr u, w1) \<Rightarrow>
          (let w2 = release_stream c1 w1;
               w3 = release_audio c1 w2
           in (Inr (), c1\<lparr>stream := None, audio := None\<rparr>, emit (Log Info Stopped) w3)))"

text \<open>\<^verbatim>\<open>pause\<close>, \<^verbatim>\<open>resume\<close>, \<^verbatim>\<open>is_running\<close>, \<^verbatim>\<open>on_detected\<close> (lines 78-92).\<close>

definition pause :: "controller \<Rightarrow> world \<Rightarrow> controller \<times> world" where
  "pause c w =
     (if running c \<and> \<not> paused c then (c\<lparr>paused := True\<rparr>, emit (Log Info PausedMsg) w)
      else (c, w))"

definition resume :: "controller \<Rightarrow> world \<Rightarrow> controller \<times> world" where
  "resume c w =
     (if running c \<and> paused c then (c\<lparr>paused := False\<rparr>, emit (Log Info ResumedMsg) w)
      else (c, w))"

definition is_running :: "controller \<Rightarrow> bool" where
  "is_running c = (running c \<and> \<not> paused c)"

definition on_detected :: "callback \<Rightarrow> controller \<Rightarrow> controller" where
  "on_detected cb c = c\<lparr>on_detected_callbacks := on_detected_callbacks c @ [cb]\<rparr>"

section \<open>The callbacks\<close>

text \<open>
  The label of line 97, \<^verbatim>\<open>f"...: {index}"\<close>: the UTF-8 bytes of the five Chinese
  characters of the source ("wake word index"), a colon, a space, and the index in
  decimal.
\<close>

definition label_prefix :: string where
  "label_prefix =
     [CHR 0xE5, CHR 0x94, CHR 0xA4, CHR 0xE9, CHR 0x86, CHR 0x92, CHR 0xE8, CHR 0xAF,
      CHR 0x8D, CHR 0xE7, CHR 0xB4, CHR 0xA2, CHR 0xE5, CHR 0xBC, CHR 0x95] @ '': ''"

definition label :: "int \<Rightarrow> string" where
  "label index = label_prefix @ str_int index"

text \<open>
  Line 97, the body of the \<^verbatim>\<open>try\<close>: the arguments are evaluated first (the lookup
  in \<^verbatim>\<open>model_paths\<close> can raise), then the callback is called.
\<close>

definition callback_body :: "path list \<Rightarrow> int \<Rightarrow> callback \<Rightarrow> world \<Rightarrow> (exn + unit) \<times> world" where
  "callback_body mp index cb w =
     (case py_index mp index of
        Inl e \<Rightarrow> (Inl e, w)
      | Inr p \<Rightarrow>
          (let w1 = emit (CallbackCalled (cb_id cb) p (label index)) w in
           case cb_run cb p (label index) of
             Some e \<Rightarrow> (Inl e, w1)
           | None \<Rightarrow> (Inr (), w1)))"

text \<open>Lines 96-99: the \<^verbatim>\<open>try\<close> with its handler, which logs the exception.\<close>

definition callback_try :: "path list \<Rightarrow> int \<Rightarrow> callback \<Rightarrow> world \<Rightarrow> (exn + unit) \<times> world" where
  "callback_try mp index cb w =
     (case callback_body mp index cb w of
        (Inl e, w1) \<Rightarrow> (Inr (), emit (Log Error (CallbackFailed e)) w1)
      | (Inr u, w1) \<Rightarrow> (Inr (), w1))"

text \<open>Line 95: the \<^verbatim>\<open>for\<close> loop; an exception of an iteration would end it.\<close>

fun trigger_loop :: "path list \<Rightarrow> int \<Rightarrow> callback list \<Rightarrow> world \<Rightarrow> (exn + unit) \<times> world" where
  "trigger_loop mp index [] w = (Inr (), w)"
| "trigger_loop mp index (cb # cbs) w =
     (case callback_try mp index cb w of
        (Inl e, w1) \<Rightarrow> (Inl e, w1)
      | (Inr u, w1) \<Rightarrow> trigger_loop mp index cbs w1)"

definition trigger_callbacks :: "int \<Rightarrow> controller \<Rightarrow> world \<Rightarrow> (exn + unit) \<times> world" where
  "trigger_callbacks index c w = trigger_loop (model_paths c) index (on_detected_callbacks c) w"

section \<open>The worker\<close>

text \<open>
  What the outside gives the worker. \<open>setup_in\<close>: the results of the three
  constructions of lines 106-115. \<open>iter_in\<close>: the results of the calls of one pass
  through the loop (the read of line 120, \<^verbatim>\<open>RunDetection\<close>, \<^verbatim>\<open>Reset\<close>).
  \<open>control\<close>: what another thread does to the flags while the worker runs; the call of
  \<^verbatim>\<open>stop\<close> by another thread is seen by the worker as its line 59, the run flag
  cleared. A \<open>tick\<close> is one pass with the controls that take effect after it, before
  the loop's condition is read again.
\<close>

record setup_in =
  new_detector_result :: "exn + detector_obj"
  new_pyaudio_result :: "exn + audio_obj"
  open_result :: "exn + stream_obj"

record iter_in =
  read_result :: "exn + frame"
  detect_result :: "exn + int"
  reset_result :: "exn option"

datatype control = CtlPause | CtlResume | CtlStopSignal

record tick =
  io :: iter_in
  controls :: "control list"

fun apply_control :: "control \<Rightarrow> controller \<times> world \<Rightarrow> controller \<times> world" where
  "apply_control CtlPause (c, w) = pause c w"
| "apply_control CtlResume (c, w) = resume c w"
| "apply_control CtlStopSignal (c, w) = (c\<lparr>running := False\<rparr>, w)"

text \<open>Lines 106-115: the engine, the audio device, the stream, each assigned once made.\<close>

definition acquire :: "controller \<Rightarrow> world \<Rightarrow> setup_in \<Rightarrow> (exn + unit) \<times> controller \<times> world" where
  "acquire c w su =
     (let w1 = emit (NewDetector (model_paths c) (join_comma (sensitivity c))) w in
      case new_detector_result su of
        Inl e \<Rightarrow> (Inl e, c, w1)
      | Inr d \<Rightarrow>
          (let c1 = c\<lparr>detector := Some d\<rparr>; w2 = emit NewPyAudio w1 in
           case new_pyaudio_result su of
             Inl e \<Rightarrow> (Inl e, c1, w2)
           | Inr a \<Rightarrow>
               (let c2 = c1\<lparr>audio := Some a\<rparr>;
                    w3 = emit (AudioOpen (audio_id a) (sample_rate c2) (buffer_size c2)) w2
                in case open_result su of
                     Inl e \<Rightarrow> (Inl e, c2, w3)
                   | Inr s \<Rightarrow> (Inr (), c2\<lparr>stream := Some s\<rparr>, w3))))"

text \<open>Lines 123-125: a match with the answer \<open>ans\<close> of the engine \<open>d\<close>.\<close>

definition on_match :: "controller \<Rightarrow> world \<Rightarrow> detector_obj \<Rightarrow> int \<Rightarrow> exn option \<Rightarrow> (exn + unit) \<times> world" where
  "on_match c w d ans reset =
     (case trigger_callbacks (ans - 1) c (emit (Log Info (Detected (ans - 1))) w) of
        (Inl e, w1) \<Rightarrow> (Inl e, w1)
      | (Inr u, w1) \<Rightarrow>
          (let w2 = emit (DetectorReset (detector_id d)) w1 in
           case reset of Some e \<Rightarrow> (Inl e, w2) | None \<Rightarrow> (Inr (), w2)))"

text \<open>
  Lines 117-125: one pass through the body of the \<^verbatim>\<open>while\<close>. The sleep of line 118 is
  0.1 s, written in milliseconds. An attribute read on \<^verbatim>\<open>None\<close> raises
  \<^verbatim>\<open>AttributeError\<close>. The pass assigns no attribute of the controller.
\<close>

definition loop_body :: "controller \<Rightarrow> world \<Rightarrow> iter_in \<Rightarrow> (exn + unit) \<times> world" where
  "loop_body c w i =
     (if paused c then (Inr (), emit (Sleep 100) w)
      else
        case stream c of
          None \<Rightarrow> (Inl AttributeError, w)
        | Some s \<Rightarrow>
            (let w1 = emit (StreamRead (stream_id s) (buffer_size c)) w in
             case read_result i of
               Inl e \<Rightarrow> (Inl e, w1)
             | Inr data \<Rightarrow>
                 (case detector c of
                    None \<Rightarrow> (Inl AttributeError, w1)
                  | Some d \<Rightarrow>
                      (let w2 = emit (RunDetection (detector_id d) data) w1 in
                       case detect_result i of
                         Inl e \<Rightarrow> (Inl e, w2)
                       | Inr ans \<Rightarrow>
                           if ans > 0 then on_match c w2 d ans (reset_result i)
                           else (Inr (), w2)))))"

text \<open>
  Line 116: the \<^verbatim>\<open>while\<close>, over the ticks the outside supplies. The first component
  of the result is \<open>None\<close> when the ticks are used up and the run flag is still set (the
  loop has not ended), \<open>Some (Inr ())\<close> when the loop has ended on a cleared run
  flag, \<open>Some (Inl e)\<close> when the exception \<open>e\<close> has left it.
\<close>

fun while_loop :: "controller \<Rightarrow> world \<Rightarrow> tick list \<Rightarrow> (exn + unit) option \<times> controller \<times> world" where
  "while_loop c w [] = (if running c then (None, c, w) else (Some (Inr ()), c, w))"
| "while_loop c w (t # ts) =
     (if \<not> running c then (Some (Inr ()), c, w)
      else
        case loop_body c w (io t) of
          (Inl e, w1) \<Rightarrow> (Some (Inl e), c, w1)
        | (Inr u, w1) \<Rightarrow>
            (case fold apply_control (controls t) (c, w1) of
               (c2, w2) \<Rightarrow> while_loop c2 w2 ts))"

text \<open>Lines 106-125: the body of the \<^verbatim>\<open>try\<close> of \<^verbatim>\<open>_detection_loop\<close>.\<close>

definition try_block :: "controller \<Rightarrow> world \<Rightarrow> setup_in \<Rightarrow> tick list \<Rightarrow> (exn + unit) option \<times> controller \<times> world" where
  "try_block c w su ticks =
     (case acquire c w su of
        (Inl e, c1, w1) \<Rightarrow> (Some (Inl e), c1, w1)
      | (Inr u, c1, w1) \<Rightarrow> while_loop c1 w1 ticks)"

text \<open>
  \<^verbatim>\<open>_detection_loop\<close> (lines 101-129), executed by the thread \<open>cur\<close>. The handler of
  line 126 logs the exception of the \<^verbatim>\<open>try\<close>; the \<^verbatim>\<open>finally\<close> of line 128 calls
  \<^verbatim>\<open>stop\<close> on the same thread, and an exception of that call leaves the method.
\<close>

definition detection_loop :: "bool \<Rightarrow> nat \<Rightarrow> controller \<Rightarrow> world \<Rightarrow> setup_in \<Rightarrow> tick list \<Rightarrow> (exn + unit) option \<times> controller \<times> world" where
  "detection_loop snowboydecoder cur c w su ticks =
     (if \<not> snowboydecoder then (Some (Inr ()), c, emit (Log Error SnowboyMissing) w)
      else
        case try_block c w su ticks of
          (None, c1, w1) \<Rightarrow> (None, c1, w1)
        | (Some (Inl e), c1, w1) \<Rightarrow>
            (case stop cur c1 (emit (Log Error (LoopFailed e)) w1) of
               (r, c2, w2) \<Rightarrow> (Some r, c2, w2))
        | (Some (Inr u), c1, w1) \<Rightarrow>
            (case stop cur c1 w1 of (r, c2, w2) \<Rightarrow> (Some r, c2, w2)))"

section \<open>Reading a trace\<close>


fun is_read :: "event \<Rightarrow> bool" where
  "is_read (StreamRead s n) = True"
| "is_read e = False"

fun is_detection :: "event \<Rightarrow> bool" where
  "is_detection (RunDetection d f) = True"
| "is_detection e = False"

fun is_reset :: "event \<Rightarrow> bool" where
  "is_reset (DetectorReset d) = True"
| "is_reset e = False"

fun is_release :: "event \<Rightarrow> bool" where
  "is_release (StreamStop s) = True"
| "is_release (StreamClose s) = True"
| "is_release (AudioTerminate a) = True"
| "is_release e = False"

fun is_spawn :: "event \<Rightarrow> bool" where
  "is_spawn (ThreadStart t) = True"
| "is_spawn e = False"

fun is_log :: "event \<Rightarrow> bool" where
  "is_log (Log l m) = True"
| "is_log e = False"



section \<open>Concrete inputs\<close>

text \<open>
  One run, used where a statement is evaluated: a process whose main thread is thread 0;
  a controller made with one model and the default sensitivity 0.5; the objects the
  libraries return to its worker, thread 1.
\<close>

definition demo_world :: world where
  "demo_world = \<lparr>trace = [], alive = [0], next_tid = 1\<rparr>"

definition demo_stream :: stream_obj where
  "demo_stream = \<lparr>stream_id = 9, is_active_result = Inr True,
     stop_stream_result = None, close_result = None\<rparr>"

definition demo_audio :: audio_obj where
  "demo_audio = \<lparr>audio_id = 8, terminate_result = None\<rparr>"

definition demo_detector :: detector_obj where
  "demo_detector = \<lparr>detector_id = 7\<rparr>"

definition demo_setup :: setup_in where
  "demo_setup = \<lparr>new_detector_result = Inr demo_detector,
     new_pyaudio_result = Inr demo_audio, open_result = Inr demo_stream\<rparr>"

text \<open>The controller as \<^verbatim>\<open>__init__\<close> leaves it.\<close>

definition demo_idle :: controller where
  "demo_idle = \<lparr>model_paths = [''hey.pmdl''], sensitivity = [''0.5''],
     sample_rate = 16000, buffer_size = 960, on_detected_callbacks = [],
     running = False, paused = False, detection_thread = None,
     audio = None, stream = None, detector = None, enabled = True\<rparr>"

text \<open>After \<^verbatim>\<open>start\<close>: the worker, thread 1, is spawned and has acquired nothing yet.\<close>

definition demo_started :: controller where
  "demo_started = demo_idle\<lparr>running := True, detection_thread := Some 1\<rparr>"

definition demo_started_world :: world where
  "demo_started_world = \<lparr>trace = [ThreadStart 1, Log Info Started], alive = [1, 0], next_tid = 2\<rparr>"

text \<open>After lines 106-115 of the worker: the engine, the device and the stream are held.\<close>

definition demo_running :: controller where
  "demo_running = demo_started\<lparr>detector := Some demo_detector, audio := Some demo_audio,
     stream := Some demo_stream\<rparr>"

definition demo_running_world :: world where
  "demo_running_world = \<lparr>trace = [ThreadStart 1, Log Info Started,
       NewDetector [''hey.pmdl''] ''0.5'', NewPyAudio, AudioOpen 8 16000 960],
     alive = [1, 0], next_tid = 2\<rparr>"

text \<open>Two subscribers: the first raises whenever it is called, the second returns.\<close>

definition demo_failing_cb :: callback where
  "demo_failing_cb = \<lparr>cb_id = 1, cb_run = (\<lambda>p l. Some (OtherException ''boom''))\<rparr>"

definition demo_good_cb :: callback where
  "demo_good_cb = \<lparr>cb_id = 2, cb_run = (\<lambda>p l. None)\<rparr>"

definition demo_subscribed :: controller where
  "demo_subscribed = on_detected demo_good_cb (on_detected demo_failing_cb demo_running)"

text \<open>A pass of the loop whose read raises, and one whose read and detection return.\<close>

definition demo_read_error :: tick where
  "demo_read_error = \<lparr>io = \<lparr>read_result = Inl OSError, detect_result = Inr 0,
     reset_result = None\<rparr>, controls = []\<rparr>"

definition demo_frame_in :: "int \<Rightarrow> iter_in" where
  "demo_frame_in ans = \<lparr>read_result = Inr [0, 0], detect_result = Inr ans, reset_result = None\<rparr>"





section \<open>The concrete run is a run of the code\<close>

lemma demo_init:
  "init True (Some [''hey.pmdl'']) (Scalar (PyFloat ''0.5'')) 16000 960 = Inr demo_idle"
  by (simp add: init_def sensitivity_strings_def demo_idle_def)

lemma demo_start: "start demo_idle demo_world = (True, demo_started, demo_started_world)"
  by (simp add: start_def emit_def demo_idle_def demo_world_def demo_started_def
      demo_started_world_def)

lemma demo_acquire:
  "acquire demo_started demo_started_world demo_setup = (Inr (), demo_running, demo_running_world)"
  by (simp add: acquire_def emit_def demo_setup_def demo_running_def demo_running_world_def
      demo_started_def demo_started_world_def demo_idle_def demo_audio_def)

section \<open>Stopping\<close>

lemma join_worker_other:
  "detection_thread c \<noteq> Some cur \<Longrightarrow> fst (join_worker cur c w) = Inr ()"
  by (simp add: join_worker_def thread_join_def split: option.splits)

lemma join_worker_release:
  "filter is_release (trace (snd (join_worker cur c w))) = filter is_release (trace w)"
  by (simp add: join_worker_def thread_join_def emit_def split: option.splits)

lemma release_stream_None: "stream c = None \<Longrightarrow> release_stream c w = w"
  by (simp add: release_stream_def)

lemma release_audio_None: "audio c = None \<Longrightarrow> release_audio c w = w"
  by (simp add: release_audio_def)

text \<open>What \<^verbatim>\<open>stop\<close> does on a thread that is not the controller's worker.\<close>

lemma stop_other_thread:
  assumes "detection_thread c \<noteq> Some cur"
  shows "stop cur c w =
    (Inr (), c\<lparr>running := False, stream := None, audio := None\<rparr>,
     emit (Log Info Stopped)
       (release_audio (c\<lparr>running := False\<rparr>)
         (release_stream (c\<lparr>running := False\<rparr>)
           (snd (join_worker cur (c\<lparr>running := False\<rparr>) w)))))"
proof -
  have "fst (join_worker cur (c\<lparr>running := False\<rparr>) w) = Inr ()"
    using assms by (simp add: join_worker_other)
  then obtain wj where "join_worker cur (c\<lparr>running := False\<rparr>) w = (Inr (), wj)"
    by (cases "join_worker cur (c\<lparr>running := False\<rparr>) w") simp
  then show ?thesis
    by (simp add: stop_def Let_def)
qed

text \<open>
  What it does on the worker's own thread while that thread is alive: the join of line 61
  raises, after the run flag is cleared and before anything is released.
\<close>

lemma stop_on_own_thread:
  assumes "detection_thread c = Some cur" and "cur \<in> set (alive w)"
  shows "stop cur c w = (Inl RuntimeError, c\<lparr>running := False\<rparr>, w)"
  using assms by (simp add: stop_def join_worker_def thread_join_def)

text \<open>
  Claim C1, as stated: for every controller state, \<^verbatim>\<open>stop()\<close> never raises, and when it
  returns the state is Stopped and both the audio handle and the engine handle are null.
  The statement fails for the engine handle. In the concrete run, the main thread (thread
  0) stops the controller whose worker holds the engine, the device and the stream: the
  call returns, and the attribute \<^verbatim>\<open>detector\<close> still holds the engine. No line of
  the class assigns \<^verbatim>\<open>detector\<close> but line 106.
\<close>

theorem stop_keeps_engine_handle_counterexample:
  "fst (stop 0 demo_running demo_running_world) = Inr () \<and>
   detector (fst (snd (stop 0 demo_running demo_running_world))) = Some demo_detector"
proof -
  have "detection_thread demo_running \<noteq> Some 0"
    by (simp add: demo_running_def demo_started_def)
  then show ?thesis
    by (simp add: stop_other_thread demo_running_def)
qed

text \<open>
  Claim C1, amended: for every controller state, \<^verbatim>\<open>stop()\<close> called on a thread other
  than the controller's own worker thread (before any \<^verbatim>\<open>start()\<close> there is no worker
  thread) does not raise; when it returns, the run flag is cleared (the state is Stopped),
  the audio stream handle and the audio device handle are null, and the engine handle is
  what it was. A second \<^verbatim>\<open>stop()\<close> right after it does not raise either, leaves the
  controller as the first left it, and makes no call that releases a resource.
\<close>

theorem stop_from_other_thread:
  assumes "detection_thread c \<noteq> Some cur"
  shows "case stop cur c w of (r1, c1, w1) \<Rightarrow>
           r1 = Inr () \<and> \<not> running c1 \<and> stream c1 = None \<and> audio c1 = None \<and>
           detector c1 = detector c \<and>
           (case stop cur c1 w1 of (r2, c2, w2) \<Rightarrow>
              r2 = Inr () \<and> c2 = c1 \<and>
              filter is_release (trace w2) = filter is_release (trace w1))"
proof -
  let ?c1 = "c\<lparr>running := False, stream := None, audio := None\<rparr>"
  have other: "detection_thread ?c1 \<noteq> Some cur"
    using assms by simp
  have again: "filter is_release (trace (snd (snd (stop cur ?c1 w1)))) = filter is_release (trace w1)"
    and same: "fst (snd (stop cur ?c1 w1)) = ?c1" for w1
    by (simp_all add: stop_other_thread [OF other] release_stream_None release_audio_None
        emit_def join_worker_release)
  show ?thesis
    using again same
    by (simp add: stop_other_thread [OF assms] stop_other_thread [OF other] split: prod.splits)
qed

text \<open>
  The amended claim C1 in the concrete run: the main thread stops the running controller
  twice. The first call releases the stream and the device; the second releases nothing.
\<close>

theorem stop_from_other_thread_witness:
  "detection_thread demo_running \<noteq> Some 0 \<and>
   (case stop 0 demo_running demo_running_world of (r1, c1, w1) \<Rightarrow>
      r1 = Inr () \<and> \<not> running c1 \<and> stream c1 = None \<and> audio c1 = None \<and>
      detector c1 = Some demo_detector \<and>
      filter is_release (trace w1) = [StreamStop 9, StreamClose 9, AudioTerminate 8] \<and>
      (case stop 0 c1 w1 of (r2, c2, w2) \<Rightarrow>
         r2 = Inr () \<and> c2 = c1 \<and>
         filter is_release (trace w2) = [StreamStop 9, StreamClose 9, AudioTerminate 8]))"
proof -
  have h: "detection_thread demo_running \<noteq> Some 0"
    by (simp add: demo_running_def demo_started_def)
  have "stop 0 demo_running demo_running_world =
     (Inr (), demo_running\<lparr>running := False, stream := None, audio := None\<rparr>,
      \<lparr>trace = trace demo_running_world @
         [ThreadJoin 1, StreamIsActive 9, StreamStop 9, StreamClose 9, AudioTerminate 8,
          Log Info Stopped], alive = [1, 0], next_tid = 2\<rparr>)"
    by (simp add: stop_other_thread [OF h])
      (simp add: join_worker_def thread_join_def release_stream_def close_stream_body_def
        release_audio_def emit_def demo_running_def demo_started_def demo_idle_def
        demo_running_world_def demo_stream_def demo_audio_def)
  then show ?thesis
    using h stop_from_other_thread [OF h, of demo_running_world]
    by (simp add: demo_running_def demo_running_world_def split: prod.splits)
qed

section \<open>A fatal error in the worker\<close>

text \<open>
  The \<^verbatim>\<open>finally\<close> of line 128 runs on the worker. When the worker is the thread
  registered in \<^verbatim>\<open>detection_thread\<close>, as it is after \<^verbatim>\<open>start\<close>, the call of
  \<^verbatim>\<open>stop\<close> ends in the exception of the join, however the \<^verbatim>\<open>try\<close> ended.
\<close>

lemma finally_on_worker_thread:
  assumes "try_block c w su ticks = (Some r, c1, w1)"
    and "detection_thread c1 = Some cur" and "cur \<in> set (alive w1)"
  shows "detection_loop True cur c w su ticks =
     (Some (Inl RuntimeError), c1\<lparr>running := False\<rparr>,
      (case r of Inl e \<Rightarrow> emit (Log Error (LoopFailed e)) w1 | Inr u \<Rightarrow> w1))"
proof (cases r)
  case (Inl e)
  have "cur \<in> set (alive (emit (Log Error (LoopFailed e)) w1))"
    using assms(3) by (simp add: emit_def)
  then show ?thesis
    using assms(1,2) Inl by (simp add: detection_loop_def stop_on_own_thread)
next
  case (Inr u)
  then show ?thesis
    using assms by (simp add: detection_loop_def stop_on_own_thread)
qed

lemma demo_try_block:
  "try_block demo_started demo_started_world demo_setup [demo_read_error] =
     (Some (Inl OSError), demo_running, emit (StreamRead 9 960) demo_running_world)"
proof -
  have "while_loop demo_running demo_running_world [demo_read_error] =
     (Some (Inl OSError), demo_running, emit (StreamRead 9 960) demo_running_world)"
    by (simp add: loop_body_def demo_running_def demo_started_def demo_idle_def
        demo_read_error_def demo_stream_def)
  then show ?thesis
    by (simp add: try_block_def demo_acquire)
qed

text \<open>
  Claim C2: after a fatal read error in the worker, \<^verbatim>\<open>is_running()\<close> becomes false and
  both resource handles (the audio stream and the audio device) have been released, each
  torn down exactly once. The code at the concrete run, where the first read of the
  worker (thread 1, spawned by \<^verbatim>\<open>start\<close>) raises: the handler logs the error, the
  \<^verbatim>\<open>finally\<close> calls \<^verbatim>\<open>stop\<close> on the worker's own thread, line 59 clears the run flag
  and the join of line 61 raises \<^verbatim>\<open>RuntimeError\<close>. The exception leaves
  \<^verbatim>\<open>_detection_loop\<close>; the stream and the device are still held, and no call has
  released either.
\<close>

theorem fatal_read_error_releases_nothing:
  "detection_loop True 1 demo_started demo_started_world demo_setup [demo_read_error] =
     (Some (Inl RuntimeError), demo_running\<lparr>running := False\<rparr>,
      emit (Log Error (LoopFailed OSError)) (emit (StreamRead 9 960) demo_running_world)) \<and>
   stream (demo_running\<lparr>running := False\<rparr>) = Some demo_stream \<and>
   audio (demo_running\<lparr>running := False\<rparr>) = Some demo_audio \<and>
   \<not> is_running (demo_running\<lparr>running := False\<rparr>) \<and>
   filter is_release
     (trace (emit (Log Error (LoopFailed OSError)) (emit (StreamRead 9 960) demo_running_world))) = []"
proof -
  have "stop 1 demo_running (emit (Log Error (LoopFailed OSError)) (emit (StreamRead 9 960) demo_running_world))
     = (Inl RuntimeError, demo_running\<lparr>running := False\<rparr>,
        emit (Log Error (LoopFailed OSError)) (emit (StreamRead 9 960) demo_running_world))"
    by (rule stop_on_own_thread)
      (simp_all add: demo_running_def demo_started_def demo_running_world_def emit_def)
  then have "detection_loop True 1 demo_started demo_started_world demo_setup [demo_read_error] =
     (Some (Inl RuntimeError), demo_running\<lparr>running := False\<rparr>,
      emit (Log Error (LoopFailed OSError)) (emit (StreamRead 9 960) demo_running_world))"
    by (simp add: detection_loop_def demo_try_block)
  then show ?thesis
    by (simp add: is_running_def demo_running_def demo_running_world_def emit_def)
qed

section \<open>Construction and the enabled flag\<close>

text \<open>
  Claim C3, as stated: a construction whose \<^verbatim>\<open>sensitivity\<close> is an explicit
  sequence of a length other than \<^verbatim>\<open>len(model_paths)\<close> is rejected at construction
  time. It fails: with one model path and two sensitivities \<^verbatim>\<open>__init__\<close> returns a
  controller, which holds both sensitivities. Line 31 turns the sequence into strings
  and compares no lengths.
\<close>

theorem init_unequal_lengths_counterexample:
  "init True (Some [''hey.pmdl'']) (Sequence [PyFloat ''0.5'', PyFloat ''0.6'']) 16000 960 =
     Inr (demo_idle\<lparr>sensitivity := [''0.5'', ''0.6'']\<rparr>) \<and>
   length [PyFloat ''0.5'', PyFloat ''0.6''] \<noteq> length [''hey.pmdl'']"
  by (simp add: init_def sensitivity_strings_def demo_idle_def)

text \<open>
  Claim C3, amended: for every construction call where \<^verbatim>\<open>sensitivity\<close> is given as an
  explicit sequence, of the length of \<^verbatim>\<open>model_paths\<close> or of any other length,
  construction succeeds: the controller holds the elements of the sequence as strings,
  in their order, and the model paths as given; no length is checked.
\<close>

theorem init_accepts_every_sequence:
  "init a mp (Sequence vs) r b =
     Inr \<lparr>model_paths = (case mp of None \<Rightarrow> [] | Some ps \<Rightarrow> ps),
          sensitivity = map str_num vs,
          sample_rate = r, buffer_size = b, on_detected_callbacks = [],
          running = False, paused = False, detection_thread = None,
          audio = None, stream = None, detector = None,
          enabled = (a \<and> (case mp of None \<Rightarrow> [] | Some ps \<Rightarrow> ps) \<noteq> [])\<rparr>"
  by (simp add: init_def sensitivity_strings_def Let_def)



section \<open>Starting twice, pausing and resuming\<close>

text \<open>
  Claim C5, as stated: for every enabled controller, \<^verbatim>\<open>start()\<close> while the state is
  Running or Paused returns true without spawning a second worker, so at most one worker
  context exists at a time. The conclusion fails. In the concrete run the worker, thread
  1, is busy (in a read or in a callback) for longer than the timeout of the join, one
  second: the main thread's \<^verbatim>\<open>stop()\<close> clears the run flag, gives up the join,
  releases the stream and the device and returns while thread 1 is alive. The next
  \<^verbatim>\<open>start()\<close> finds the run flag clear and spawns thread 2: two workers are alive,
  and the trace has two thread starts. Thread 1, back at line 116, reads the run flag
  that \<^verbatim>\<open>start()\<close> has set again and does not leave its loop. \<^verbatim>\<open>start\<close> reads
  the run flag and nothing else; no line of the class looks at the old thread.
\<close>

theorem restart_after_stop_two_workers_counterexample:
  "stop 0 demo_running demo_running_world =
     (Inr (), demo_running\<lparr>running := False, stream := None, audio := None\<rparr>,
      \<lparr>trace = trace demo_running_world @
         [ThreadJoin 1, StreamIsActive 9, StreamStop 9, StreamClose 9, AudioTerminate 8,
          Log Info Stopped], alive = [1, 0], next_tid = 2\<rparr>) \<and>
   start (demo_running\<lparr>running := False, stream := None, audio := None\<rparr>)
      \<lparr>trace = trace demo_running_world @
         [ThreadJoin 1, StreamIsActive 9, StreamStop 9, StreamClose 9, AudioTerminate 8,
          Log Info Stopped], alive = [1, 0], next_tid = 2\<rparr> =
     (True, demo_running\<lparr>running := True, stream := None, audio := None,
        detection_thread := Some 2\<rparr>,
      \<lparr>trace = trace demo_running_world @
         [ThreadJoin 1, StreamIsActive 9, StreamStop 9, StreamClose 9, AudioTerminate 8,
          Log Info Stopped, ThreadStart 2, Log Info Started], alive = [2, 1, 0], next_tid = 3\<rparr>) \<and>
   filter is_spawn (trace demo_running_world @
         [ThreadJoin 1, StreamIsActive 9, StreamStop 9, StreamClose 9, AudioTerminate 8,
          Log Info Stopped, ThreadStart 2, Log Info Started]) = [ThreadStart 1, ThreadStart 2] \<and>
   fst (while_loop (demo_running\<lparr>running := True, stream := None, audio := None,
        detection_thread := Some 2\<rparr>)
      \<lparr>trace = trace demo_running_world @
         [ThreadJoin 1, StreamIsActive 9, StreamStop 9, StreamClose 9, AudioTerminate 8,
          Log Info Stopped, ThreadStart 2, Log Info Started], alive = [2, 1, 0], next_tid = 3\<rparr>
      []) = None"
proof -
  have h: "detection_thread demo_running \<noteq> Some 0"
    by (simp add: demo_running_def demo_started_def)
  have "stop 0 demo_running demo_running_world =
     (Inr (), demo_running\<lparr>running := False, stream := None, audio := None\<rparr>,
      \<lparr>trace = trace demo_running_world @
         [ThreadJoin 1, StreamIsActive 9, StreamStop 9, StreamClose 9, AudioTerminate 8,
          Log Info Stopped], alive = [1, 0], next_tid = 2\<rparr>)"
    by (simp add: stop_other_thread [OF h])
      (simp add: join_worker_def thread_join_def release_stream_def close_stream_body_def
        release_audio_def emit_def demo_running_def demo_started_def demo_idle_def
        demo_running_world_def demo_stream_def demo_audio_def)
  then show ?thesis
    by (simp add: start_def emit_def demo_running_def demo_started_def demo_idle_def
        demo_running_world_def)
qed

text \<open>
  Claim C5, amended: for every enabled controller whose run flag is set (the state is
  Running or Paused: the pause flag is not read), \<^verbatim>\<open>start()\<close> returns true and spawns
  no worker: the controller, with its worker thread, is unchanged, the trace gains one log
  entry and no thread start, and the threads alive are the same. For every controller,
  \<^verbatim>\<open>start()\<close> spawns a worker exactly when the controller is enabled and its run flag
  is clear, and then exactly one. (How many workers are alive at a time is not bounded by
  this: see the run above.)
\<close>

theorem start_while_started:
  "(enabled c \<and> running c \<longrightarrow>
      start c w = (True, c, emit (Log Info AlreadyRunning) w) \<and>
      filter is_spawn (trace (emit (Log Info AlreadyRunning) w)) = filter is_spawn (trace w) \<and>
      alive (emit (Log Info AlreadyRunning) w) = alive w) \<and>
   (case start c w of (b, c1, w1) \<Rightarrow>
      filter is_spawn (trace w1) =
        filter is_spawn (trace w) @
        (if enabled c \<and> \<not> running c then [ThreadStart (next_tid w)] else []) \<and>
      alive w1 = (if enabled c \<and> \<not> running c then next_tid w # alive w else alive w))"
  by (simp add: start_def emit_def Let_def)

text \<open>
  The amended claim C5 in the concrete run: \<^verbatim>\<open>start()\<close> on the Running controller
  and on the same controller Paused returns true and the trace keeps its one thread
  start; \<^verbatim>\<open>start()\<close> on the controller just constructed spawns thread 1.
\<close>

theorem start_while_started_witness:
  "enabled demo_running \<and> running demo_running \<and> is_running demo_running \<and>
   start demo_running demo_running_world =
     (True, demo_running, emit (Log Info AlreadyRunning) demo_running_world) \<and>
   \<not> is_running (demo_running\<lparr>paused := True\<rparr>) \<and>
   start (demo_running\<lparr>paused := True\<rparr>) demo_running_world =
     (True, demo_running\<lparr>paused := True\<rparr>, emit (Log Info AlreadyRunning) demo_running_world) \<and>
   filter is_spawn (trace (emit (Log Info AlreadyRunning) demo_running_world)) = [ThreadStart 1] \<and>
   alive (emit (Log Info AlreadyRunning) demo_running_world) = [1, 0] \<and>
   enabled demo_idle \<and> \<not> running demo_idle \<and>
   filter is_spawn (trace (snd (snd (start demo_idle demo_world)))) = [ThreadStart 1] \<and>
   alive (snd (snd (start demo_idle demo_world))) = [1, 0]"
proof -
  have e: "enabled demo_running \<and> running demo_running"
    "enabled (demo_running\<lparr>paused := True\<rparr>) \<and> running (demo_running\<lparr>paused := True\<rparr>)"
    "enabled demo_idle" "\<not> running demo_idle"
    by (simp_all add: demo_running_def demo_started_def demo_idle_def)
  show ?thesis
    using e start_while_started [of demo_running demo_running_world]
      start_while_started [of "demo_running\<lparr>paused := True\<rparr>" demo_running_world]
      start_while_started [of demo_idle demo_world]
    by (simp add: is_running_def demo_running_def demo_started_def demo_idle_def
        demo_running_world_def demo_world_def emit_def split: prod.splits)
qed

text \<open>
  Claim C7: \<^verbatim>\<open>pause()\<close> does nothing unless the state is Running (\<open>a\<close>);
  \<^verbatim>\<open>resume()\<close> does nothing unless the state is Paused (\<open>b\<close>); and
  \<^verbatim>\<open>pause()\<close> followed at once by \<^verbatim>\<open>resume()\<close> (\<open>c\<close>) leaves the audio
  device handle, the stream handle and the engine handle the same objects, makes no call
  but on the logger (nothing is released or reopened), and leaves the worker thread, the
  run flag and the threads alive as they were; from the state Running the controller is
  back as it was.
\<close>

theorem pause_resume_frame:
  "(\<not> is_running a \<longrightarrow> pause a w = (a, w)) \<and>
   (\<not> (running b \<and> paused b) \<longrightarrow> resume b w = (b, w)) \<and>
   (case pause c w of (c1, w1) \<Rightarrow>
      case resume c1 w1 of (c2, w2) \<Rightarrow>
        audio c2 = audio c \<and> stream c2 = stream c \<and> detector c2 = detector c \<and>
        detection_thread c2 = detection_thread c \<and> running c2 = running c \<and>
        alive w2 = alive w \<and>
        filter (\<lambda>e. \<not> is_log e) (trace w2) = filter (\<lambda>e. \<not> is_log e) (trace w) \<and>
        (is_running c \<longrightarrow> c2 = c))"
  by (simp add: pause_def resume_def is_running_def emit_def)

text \<open>
  Claim C7 in the concrete run: \<^verbatim>\<open>pause()\<close> on the Paused controller and
  \<^verbatim>\<open>resume()\<close> on the Running controller change nothing, and \<^verbatim>\<open>pause()\<close> then
  \<^verbatim>\<open>resume()\<close> on the Running controller give it back, with two log entries.
\<close>

theorem pause_resume_frame_witness:
  "\<not> is_running (demo_running\<lparr>paused := True\<rparr>) \<and>
   pause (demo_running\<lparr>paused := True\<rparr>) demo_running_world =
     (demo_running\<lparr>paused := True\<rparr>, demo_running_world) \<and>
   \<not> (running demo_running \<and> paused demo_running) \<and>
   resume demo_running demo_running_world = (demo_running, demo_running_world) \<and>
   is_running demo_running \<and>
   pause demo_running demo_running_world =
     (demo_running\<lparr>paused := True\<rparr>, emit (Log Info PausedMsg) demo_running_world) \<and>
   resume (demo_running\<lparr>paused := True\<rparr>) (emit (Log Info PausedMsg) demo_running_world) =
     (demo_running, emit (Log Info ResumedMsg) (emit (Log Info PausedMsg) demo_running_world))"
proof -
  have r: "running demo_running" "\<not> paused demo_running"
    by (simp_all add: demo_running_def demo_started_def demo_idle_def)
  have eq: "demo_running\<lparr>paused := False\<rparr> = demo_running"
    by (simp add: demo_running_def demo_started_def demo_idle_def)
  show ?thesis
    using r pause_resume_frame [of "demo_running\<lparr>paused := True\<rparr>" demo_running_world
        demo_running demo_running]
    by (simp add: is_running_def pause_def resume_def eq)
qed

section \<open>The callbacks of a match\<close>

lemma callback_try_returns: "fst (callback_try mp index cb w) = Inr ()"
  by (simp add: callback_try_def split: prod.splits sum.splits)

lemma trigger_loop_returns: "fst (trigger_loop mp index cbs w) = Inr ()"
proof (induction cbs arbitrary: w)
  case Nil
  show ?case by simp
next
  case (Cons cb cbs)
  obtain w1 where "callback_try mp index cb w = (Inr (), w1)"
    using callback_try_returns [of mp index cb w]
    by (cases "callback_try mp index cb w") simp
  then show ?case
    using Cons.IH [of w1] by simp
qed


lemma py_index_out_of_range:
  "i < - int (length xs) \<or> int (length xs) \<le> i \<Longrightarrow> py_index xs i = Inl IndexError"
  by (auto simp: py_index_def)



lemma callback_try_out_of_range:
  assumes "i < - int (length mp) \<or> int (length mp) \<le> i"
  shows "callback_try mp i cb w = (Inr (), emit (Log Error (CallbackFailed IndexError)) w)"
  using assms by (simp add: callback_try_def callback_body_def py_index_out_of_range)

lemma trigger_loop_out_of_range:
  assumes "i < - int (length mp) \<or> int (length mp) \<le> i"
  shows "trace (snd (trigger_loop mp i cbs w)) =
           trace w @ map (\<lambda>cb. Log Error (CallbackFailed IndexError)) cbs"
proof (induction cbs arbitrary: w)
  case Nil
  show ?case by simp
next
  case (Cons cb cbs)
  show ?case
    using Cons.IH [of "emit (Log Error (CallbackFailed IndexError)) w"]
    by (simp add: callback_try_out_of_range [OF assms] emit_def)
qed

text \<open>
  Lines 123-125 never raise because of a callback: the callbacks run, then the engine is
  reset, and the outcome of the pass is the outcome of the reset.
\<close>

lemma on_match_reset:
  "on_match c w d ans reset =
     ((case reset of None \<Rightarrow> Inr () | Some e \<Rightarrow> Inl e),
      emit (DetectorReset (detector_id d))
        (snd (trigger_callbacks (ans - 1) c (emit (Log Info (Detected (ans - 1))) w))))"
proof -
  let ?w = "emit (Log Info (Detected (ans - 1))) w"
  have "fst (trigger_callbacks (ans - 1) c ?w) = Inr ()"
    by (simp add: trigger_callbacks_def trigger_loop_returns)
  then obtain w1 where "trigger_callbacks (ans - 1) c ?w = (Inr (), w1)"
    by (cases "trigger_callbacks (ans - 1) c ?w") simp
  then show ?thesis
    by (simp add: on_match_def split: option.splits)
qed

lemma demo_subscribed_eq:
  "demo_subscribed = demo_running\<lparr>on_detected_callbacks := [demo_failing_cb, demo_good_cb]\<rparr>"
  by (simp add: demo_subscribed_def on_detected_def demo_running_def demo_started_def demo_idle_def)

lemma demo_trigger:
  "trigger_callbacks 0 demo_subscribed w =
     (Inr (), w\<lparr>trace := trace w @
        [CallbackCalled 1 ''hey.pmdl'' (label 0),
         Log Error (CallbackFailed (OtherException ''boom'')),
         CallbackCalled 2 ''hey.pmdl'' (label 0)]\<rparr>)"
  by (simp add: trigger_callbacks_def demo_subscribed_eq callback_try_def callback_body_def
      py_index_def emit_def demo_running_def demo_started_def demo_idle_def
      demo_failing_cb_def demo_good_cb_def)













text \<open>
  Claim C10: for every index given to \<^verbatim>\<open>_trigger_callbacks\<close>, in the range of
  \<^verbatim>\<open>model_paths\<close> or not, the method returns without an exception. For an index out
  of range (at or past the length, or below minus the length) the lookup fails inside the
  \<^verbatim>\<open>try\<close> of each iteration: the trace gains one logged \<^verbatim>\<open>IndexError\<close> for each
  registered callback, and nothing else. The pass of the worker loop that made the call
  goes on to the reset and, with a reset that returns, returns.
\<close>

theorem trigger_callbacks_never_raises:
  "fst (trigger_callbacks index c w) = Inr () \<and>
   (index < - int (length (model_paths c)) \<or> int (length (model_paths c)) \<le> index \<longrightarrow>
      trace (snd (trigger_callbacks index c w)) =
        trace w @ map (\<lambda>cb. Log Error (CallbackFailed IndexError)) (on_detected_callbacks c)) \<and>
   fst (on_match c w d (index + 1) None) = Inr ()"
  using on_match_reset [of c w d "index + 1" None]
  by (simp add: trigger_callbacks_def trigger_loop_returns trigger_loop_out_of_range)

text \<open>
  Claim C10 in the concrete run: index 5 with one model path and two subscribers gives
  two logged index errors, no call and no exception.
\<close>

theorem trigger_callbacks_never_raises_witness:
  "int (length (model_paths demo_subscribed)) \<le> 5 \<and>
   trigger_callbacks 5 demo_subscribed demo_running_world =
     (Inr (), demo_running_world\<lparr>trace := trace demo_running_world @
        [Log Error (CallbackFailed IndexError), Log Error (CallbackFailed IndexError)]\<rparr>) \<and>
   fst (on_match demo_subscribed demo_running_world demo_detector 6 None) = Inr ()"
proof -
  have h: "int (length (model_paths demo_subscribed)) \<le> 5"
    by (simp add: demo_subscribed_eq demo_running_def demo_started_def demo_idle_def)
  have "trigger_callbacks 5 demo_subscribed demo_running_world =
     (Inr (), demo_running_world\<lparr>trace := trace demo_running_world @
        [Log Error (CallbackFailed IndexError), Log Error (CallbackFailed IndexError)]\<rparr>)"
    by (simp add: trigger_callbacks_def demo_subscribed_eq callback_try_def callback_body_def
      py_index_def emit_def demo_running_def demo_started_def demo_idle_def)
  then show ?thesis
    using h trigger_callbacks_never_raises [of 5 demo_subscribed demo_running_world demo_detector]
    by simp
qed

section \<open>One pass of the worker loop\<close>

lemma apply_control_keeps_paused:
  "paused c \<Longrightarrow> x \<noteq> CtlResume \<Longrightarrow> paused (fst (apply_control x (c, w)))"
  by (cases x) (simp_all add: pause_def)

lemma apply_control_no_frames:
  "filter is_read (trace (snd (apply_control x (c, w)))) = filter is_read (trace w) \<and>
   filter is_detection (trace (snd (apply_control x (c, w)))) = filter is_detection (trace w)"
  by (cases x) (simp_all add: pause_def resume_def emit_def)

lemma controls_keep_paused:
  "paused c \<Longrightarrow> CtlResume \<notin> set xs \<Longrightarrow> paused (fst (fold apply_control xs (c, w)))"
proof (induction xs arbitrary: c w)
  case Nil
  then show ?case by simp
next
  case (Cons x xs)
  obtain c1 w1 where s: "apply_control x (c, w) = (c1, w1)"
    by (cases "apply_control x (c, w)")
  have "paused c1"
    using apply_control_keeps_paused [of c x w] Cons.prems s by auto
  then show ?case
    using Cons.IH [of c1 w1] Cons.prems s by simp
qed

lemma controls_no_frames:
  "filter is_read (trace (snd (fold apply_control xs (c, w)))) = filter is_read (trace w) \<and>
   filter is_detection (trace (snd (fold apply_control xs (c, w)))) = filter is_detection (trace w)"
proof (induction xs arbitrary: c w)
  case Nil
  show ?case by simp
next
  case (Cons x xs)
  obtain c1 w1 where s: "apply_control x (c, w) = (c1, w1)"
    by (cases "apply_control x (c, w)")
  show ?case
    using Cons.IH [of c1 w1] apply_control_no_frames [of x c w] s by simp
qed

lemma paused_pass: "paused c \<Longrightarrow> loop_body c w i = (Inr (), emit (Sleep 100) w)"
  by (simp add: loop_body_def)

lemma paused_loop_no_frames:
  assumes "paused c" and "\<forall>t\<in>set ticks. CtlResume \<notin> set (controls t)"
  shows "filter is_read (trace (snd (snd (while_loop c w ticks)))) = filter is_read (trace w) \<and>
         filter is_detection (trace (snd (snd (while_loop c w ticks)))) =
           filter is_detection (trace w)"
  using assms
proof (induction ticks arbitrary: c w)
  case Nil
  show ?case by simp
next
  case (Cons t ts)
  show ?case
  proof (cases "running c")
    case False
    then show ?thesis by simp
  next
    case True
    let ?w = "emit (Sleep 100) w"
    obtain c2 w2 where s: "fold apply_control (controls t) (c, ?w) = (c2, w2)"
      by (cases "fold apply_control (controls t) (c, ?w)")
    have p: "paused c2"
      using controls_keep_paused [of c "controls t" ?w] Cons.prems s by simp
    have f: "filter is_read (trace w2) = filter is_read (trace w)"
      "filter is_detection (trace w2) = filter is_detection (trace w)"
      using controls_no_frames [of "controls t" c ?w] s by (simp_all add: emit_def)
    have "while_loop c w (t # ts) = while_loop c2 w2 ts"
      using True Cons.prems(1) s by (simp add: paused_pass)
    then show ?thesis
      using Cons.IH [of c2 w2] p f Cons.prems(2) by simp
  qed
qed

text \<open>
  Claim C8: a pass of the worker loop made while the pause flag is set reads no frame
  and feeds none to the engine: it returns after the sleep of 0.1 s and has made no other
  call. So over any number of passes that start with the flag set and during which no
  other thread resumes the controller, the trace gains no read of the stream and no
  detection call.
\<close>

theorem paused_pass_reads_nothing:
  assumes "paused c"
  shows "loop_body c w i = (Inr (), emit (Sleep 100) w) \<and>
         ((\<forall>t\<in>set ticks. CtlResume \<notin> set (controls t)) \<longrightarrow>
            filter is_read (trace (snd (snd (while_loop c w ticks)))) = filter is_read (trace w) \<and>
            filter is_detection (trace (snd (snd (while_loop c w ticks)))) =
              filter is_detection (trace w))"
  using assms paused_loop_no_frames [of c ticks w] by (simp add: paused_pass)

text \<open>
  Claim C8 in the concrete run: the Paused controller makes two passes (another thread
  stops it after the second); the loop ends with two sleeps in the trace, no read and no
  detection.
\<close>

theorem paused_pass_reads_nothing_witness:
  "paused (demo_running\<lparr>paused := True\<rparr>) \<and>
   loop_body (demo_running\<lparr>paused := True\<rparr>) demo_running_world (demo_frame_in 1) =
     (Inr (), emit (Sleep 100) demo_running_world) \<and>
   CtlResume \<notin> set [CtlPause] \<and> CtlResume \<notin> set [CtlStopSignal] \<and>
   while_loop (demo_running\<lparr>paused := True\<rparr>) demo_running_world
       [\<lparr>io = demo_frame_in 1, controls = [CtlPause]\<rparr>,
        \<lparr>io = demo_frame_in 1, controls = [CtlStopSignal]\<rparr>] =
     (Some (Inr ()), demo_running\<lparr>paused := True, running := False\<rparr>,
      emit (Sleep 100) (emit (Sleep 100) demo_running_world)) \<and>
   filter is_read (trace (emit (Sleep 100) (emit (Sleep 100) demo_running_world))) = [] \<and>
   filter is_detection (trace (emit (Sleep 100) (emit (Sleep 100) demo_running_world))) = []"
proof -
  let ?c = "demo_running\<lparr>paused := True\<rparr>"
  let ?ticks = "[\<lparr>io = demo_frame_in 1, controls = [CtlPause]\<rparr>,
        \<lparr>io = demo_frame_in 1, controls = [CtlStopSignal]\<rparr>]"
  have p: "paused ?c"
    by simp
  have r: "running ?c"
    by (simp add: demo_running_def demo_started_def)
  have b: "\<forall>t\<in>set ?ticks. CtlResume \<notin> set (controls t)"
    by simp
  have l: "while_loop ?c demo_running_world ?ticks =
     (Some (Inr ()), demo_running\<lparr>paused := True, running := False\<rparr>,
      emit (Sleep 100) (emit (Sleep 100) demo_running_world))"
    using r by (simp add: paused_pass pause_def)
  show ?thesis
    using p b l paused_pass_reads_nothing [OF p, of demo_running_world "demo_frame_in 1" ?ticks]
    by (simp add: demo_running_world_def emit_def)
qed

text \<open>
  Claim C9: in a pass that is not paused, whose read succeeds and whose detection call
  returns \<open>ans\<close>: when \<open>ans \<le> 0\<close> (negative error codes included) the pass makes
  the read and the detection call and nothing else (no callback, no reset) and returns,
  and the loop goes on with the ticks that follow; when \<open>0 < ans\<close> the callbacks are
  triggered with the index \<open>ans - 1\<close> and the engine is reset after them.
\<close>

theorem answer_decides_match:
  assumes "\<not> paused c" and "stream c = Some s" and "detector c = Some d"
    and "read_result i = Inr data" and "detect_result i = Inr ans"
  shows "(ans \<le> 0 \<longrightarrow>
            loop_body c w i =
              (Inr (), emit (RunDetection (detector_id d) data)
                 (emit (StreamRead (stream_id s) (buffer_size c)) w)) \<and>
            (running c \<longrightarrow>
               while_loop c w (\<lparr>io = i, controls = []\<rparr> # ts) =
                 while_loop c (emit (RunDetection (detector_id d) data)
                   (emit (StreamRead (stream_id s) (buffer_size c)) w)) ts)) \<and>
         (0 < ans \<longrightarrow>
            loop_body c w i =
              ((case reset_result i of None \<Rightarrow> Inr () | Some e \<Rightarrow> Inl e),
               emit (DetectorReset (detector_id d))
                 (snd (trigger_callbacks (ans - 1) c
                    (emit (Log Info (Detected (ans - 1)))
                      (emit (RunDetection (detector_id d) data)
                        (emit (StreamRead (stream_id s) (buffer_size c)) w)))))))"
  using assms by (simp add: loop_body_def on_match_reset)

text \<open>
  Claim C9 in the concrete run, for the answers -1, 0 and 1: the first two passes read
  and detect only; the third calls both subscribers with index 0 and resets the engine.
\<close>

theorem answer_decides_match_witness:
  "\<not> paused demo_subscribed \<and> stream demo_subscribed = Some demo_stream \<and>
   detector demo_subscribed = Some demo_detector \<and> running demo_subscribed \<and>
   loop_body demo_subscribed demo_world (demo_frame_in (- 1)) =
     (Inr (), \<lparr>trace = [StreamRead 9 960, RunDetection 7 [0, 0]], alive = [0], next_tid = 1\<rparr>) \<and>
   loop_body demo_subscribed demo_world (demo_frame_in 0) =
     (Inr (), \<lparr>trace = [StreamRead 9 960, RunDetection 7 [0, 0]], alive = [0], next_tid = 1\<rparr>) \<and>
   loop_body demo_subscribed demo_world (demo_frame_in 1) =
     (Inr (), \<lparr>trace = [StreamRead 9 960, RunDetection 7 [0, 0], Log Info (Detected 0),
        CallbackCalled 1 ''hey.pmdl'' (label 0),
        Log Error (CallbackFailed (OtherException ''boom'')),
        CallbackCalled 2 ''hey.pmdl'' (label 0), DetectorReset 7], alive = [0], next_tid = 1\<rparr>)"
proof -
  have h: "\<not> paused demo_subscribed" "stream demo_subscribed = Some demo_stream"
    "detector demo_subscribed = Some demo_detector" "running demo_subscribed"
    by (simp_all add: demo_subscribed_eq demo_running_def demo_started_def demo_idle_def)
  have i: "read_result (demo_frame_in a) = Inr [0, 0]" "detect_result (demo_frame_in a) = Inr a"
    "reset_result (demo_frame_in a) = None" for a
    by (simp_all add: demo_frame_in_def)
  have b: "buffer_size demo_subscribed = 960" "stream_id demo_stream = 9"
    "detector_id demo_detector = 7"
    by (simp_all add: demo_subscribed_eq demo_running_def demo_started_def demo_idle_def
        demo_stream_def demo_detector_def)
  show ?thesis
    using h
      answer_decides_match [OF h(1,2,3) i(1,2), of "- 1" demo_world "[]"]
      answer_decides_match [OF h(1,2,3) i(1,2), of 0 demo_world "[]"]
      answer_decides_match [OF h(1,2,3) i(1,2), of 1 demo_world "[]"]
    by (simp add: i b demo_trigger emit_def demo_world_def)
qed

end
